theory Spec2Isabelle
  imports Complex_Main "HOL-Library.Multiset" "HOL-Library.Log_Nat"
begin

section \<open>The sentiment timeline of the dashboard\<close>

text \<open>
  The component \<open>SentimentTimeline\<close> derives, from the selected search results and two
  toggles, the chart points, the filtered points, the statistics, the date range of the
  axis and the two trend lines. Every derived value is a pure function of its inputs, so
  each \<open>useMemo\<close> block of the component is a HOL function of the values it depends on.

  Numbers: a JavaScript \<open>number\<close> is an IEEE 754 binary64 value, modelled as the \<open>real\<close> it
  denotes. The regression, the end points of the trend lines and the statistics are
  modelled with each operation rounded to binary64 (\<open>fl64\<close>), and their constants are the
  binary64 values of the literals, since their results depend on the rounding. The
  conversion of seconds to milliseconds, the size of a point and the date range are
  modelled in exact arithmetic. The regression is given a second time in exact arithmetic
  (\<open>calculateTrendLine\<close>), for comparison with the rounded one
  (\<open>calculateTrendLine64\<close>, which the component's trend lines use). \<open>NaN\<close> and the
  infinities are outside the model.
  Strings: a \<open>string\<close> is a list of characters; the string-literal unions of the
  component (\<open>'left' | 'social' | 'right'\<close> and the like) stay strings, so that the
  comparisons \<open>===\<close> of the source are equalities of strings.
\<close>

subsection \<open>Search results\<close>

text \<open>
  The fields of \<open>SearchResult\<close> that the component reads. \<open>bias\<close> and \<open>sentiment\<close> are
  optional in the interface. \<open>sentiment_score\<close> and \<open>contents\<close> are declared as present, but
  the component tests the first against \<open>undefined\<close> and reads the second through \<open>?.\<close>,
  so both are options here, \<open>None\<close> standing for \<open>undefined\<close>. \<open>title\<close> and \<open>date\<close> are only
  tested for truthiness, where an absent value behaves as \<open>''\<close> and as \<open>0\<close>.
\<close>

record SearchResult =
  source :: string
  title :: string
  url :: string
  contents :: "string option"
  author :: string
  date :: real
  sentiment_score :: "real option"
  sentiment :: "string option"
  bias :: "string option"

subsection \<open>Strings\<close>

text \<open>\<open>toLowerCase\<close> on the ASCII letters; every other character is kept.\<close>

definition toLowerChar :: "char \<Rightarrow> char" where
  "toLowerChar c =
     (let n = (of_char c :: nat) in if 65 \<le> n \<and> n \<le> 90 then char_of (n + 32) else c)"

definition toLowerCase :: "string \<Rightarrow> string" where
  "toLowerCase s = map toLowerChar s"

fun startsWith :: "string \<Rightarrow> string \<Rightarrow> bool" where
  "startsWith _ [] = True"
| "startsWith [] (_ # _) = False"
| "startsWith (c # cs) (d # ds) = (c = d \<and> startsWith cs ds)"

text \<open>\<open>s.includes(t)\<close>: \<open>t\<close> occurs in \<open>s\<close> as a contiguous run of characters.\<close>

fun str_includes :: "string \<Rightarrow> string \<Rightarrow> bool" where
  "str_includes [] t = startsWith [] t"
| "str_includes (c # cs) t = (startsWith (c # cs) t \<or> str_includes cs t)"

text \<open>\<open>s.substring(0, n)\<close>: the first \<open>n\<close> characters, the whole string when it is shorter.\<close>

definition substring0 :: "string \<Rightarrow> nat \<Rightarrow> string" where
  "substring0 s n = take n s"

text \<open>Truthiness of an optional string: \<open>undefined\<close> and \<open>''\<close> are falsy.\<close>

definition truthy :: "string option \<Rightarrow> bool" where
  "truthy v = (case v of None \<Rightarrow> False | Some s \<Rightarrow> s \<noteq> [])"

subsection \<open>Categories of sources\<close>

definition LEFT_SOURCES :: "string list" where
  "LEFT_SOURCES = [''cnn'', ''msnbc'', ''nyt'', ''nytimes'', ''washington post'',
     ''huffpost'', ''vox'', ''slate'', ''the guardian'']"

definition RIGHT_SOURCES :: "string list" where
  "RIGHT_SOURCES = [''fox'', ''foxnews'', ''breitbart'', ''wsj'', ''wall street journal'',
     ''daily wire'', ''newsmax'', ''oann'', ''the blaze'']"

definition SOCIAL_SOURCES :: "string list" where
  "SOCIAL_SOURCES = [''reddit'', ''r/'', ''bluesky'', ''bsky'']"

text \<open>\<open>KEYS.some(s => lowerSource.includes(s))\<close>\<close>

definition someIncluded :: "string list \<Rightarrow> string \<Rightarrow> bool" where
  "someIncluded keys lowerSource = list_ex (\<lambda>s. str_includes lowerSource s) keys"

definition isSocialSource :: "SearchResult \<Rightarrow> bool" where
  "isSocialSource r =
     (let lowerSource = toLowerCase (source r)
      in someIncluded SOCIAL_SOURCES lowerSource \<or> lowerSource = ''reddit'')"

definition getSourceBias :: "SearchResult \<Rightarrow> string" where
  "getSourceBias r =
     (if truthy (bias r) \<and> bias r = Some ''left'' then ''left''
      else if truthy (bias r) \<and> bias r = Some ''right'' then ''right''
      else let lowerSource = toLowerCase (source r)
           in if someIncluded LEFT_SOURCES lowerSource then ''left''
              else if someIncluded RIGHT_SOURCES lowerSource then ''right''
              else ''neutral'')"

definition categorizeSource :: "SearchResult \<Rightarrow> string" where
  "categorizeSource r =
     (let lowerSource = toLowerCase (source r)
      in if someIncluded SOCIAL_SOURCES lowerSource \<or> toLowerCase (source r) = ''reddit''
         then ''social''
         else if truthy (bias r) \<and> bias r = Some ''left'' then ''left''
         else if truthy (bias r) \<and> bias r = Some ''right'' then ''right''
         else if someIncluded LEFT_SOURCES lowerSource then ''left''
         else if someIncluded RIGHT_SOURCES lowerSource then ''right''
         else ''social'')"

subsection \<open>Linear regression\<close>

text \<open>
  \<open>calculateTrendLine\<close> takes objects with fields \<open>x\<close> and \<open>y\<close>; the component passes its
  chart points, which have more fields. The record \<open>point\<close> and its extensions model that:
  the function accepts every extension of \<open>point\<close>. The first definition reads the
  operations of the source as exact; the second, further down, rounds each of them.
\<close>

record point =
  p_x :: real
  p_y :: real

record trend =
  slope :: real
  intercept :: real

definition calculateTrendLine :: "'a point_scheme list \<Rightarrow> trend option" where
  "calculateTrendLine data =
     (if length data < 2 then None
      else
        let n = real (length data);
            sumX = foldl (\<lambda>acc d. acc + p_x d) 0 data;
            sumY = foldl (\<lambda>acc d. acc + p_y d) 0 data;
            sumXY = foldl (\<lambda>acc d. acc + p_x d * p_y d) 0 data;
            sumXX = foldl (\<lambda>acc d. acc + p_x d * p_x d) 0 data;
            denominator = n * sumXX - sumX * sumX
        in if denominator = 0 then None
           else
             let s = (n * sumXY - sumX * sumY) / denominator;
                 i = (sumY - s * sumX) / n
             in Some \<lparr>slope = s, intercept = i\<rparr>)"

subsection \<open>Binary64 arithmetic\<close>

text \<open>
  A JavaScript number is an IEEE 754 binary64 value, and \<open>+\<close>, \<open>-\<close>, \<open>*\<close> and \<open>/\<close> return the
  exact result rounded to the nearest such value, ties to the even significand.
  \<open>round_half_even\<close> rounds a real to the nearest integer, ties to even.
\<close>

definition round_half_even :: "real \<Rightarrow> int" where
  "round_half_even x =
     (let f = \<lfloor>x\<rfloor>; r = x - of_int f
      in if r < 1 / 2 then f else if r > 1 / 2 then f + 1 else if even f then f else f + 1)"

text \<open>
  The binary exponent of a non-zero real \<open>x\<close>: the integer \<open>e\<close> with
  \<open>2 powi e \<le> \<bar>x\<bar>\<close> and \<open>\<bar>x\<bar> < 2 powi (e + 1)\<close>, computed from the bit length of an integer.
\<close>

definition exponent2 :: "real \<Rightarrow> int" where
  "exponent2 x =
     (if \<bar>x\<bar> \<ge> 1 then bitlen \<lfloor>\<bar>x\<bar>\<rfloor> - 1 else - bitlen (\<lceil>1 / \<bar>x\<bar>\<rceil> - 1))"

text \<open>
  Rounding to binary64: the significand has 53 bits, so the spacing of the values around
  \<open>x\<close> is \<open>2 powi (e - 52)\<close>; below the least normal exponent -1022 the spacing stays
  \<open>2 powi (- 1074)\<close> (subnormal values). A result of magnitude \<open>2 ^ 1024\<close> or more would be
  infinite and is outside the model.
\<close>

definition fl64 :: "real \<Rightarrow> real" where
  "fl64 x =
     (if x = 0 then 0
      else let u = 2 powi (max (- 1022) (exponent2 x) - 52)
           in of_int (round_half_even (x / u)) * u)"

text \<open>
  The relative rounding error of a binary64 operation, and the absolute one in the
  subnormal range (half the least spacing).
\<close>

definition unit_roundoff :: real where
  "unit_roundoff = 1 / 2 ^ 53"

definition least_half_spacing :: real where
  "least_half_spacing = 2 powi (- 1074) / 2"

text \<open>The sum of a list as a left-to-right loop adds it up, each addition rounded.\<close>

definition sum64 :: "real list \<Rightarrow> real" where
  "sum64 ys = foldl (\<lambda>acc y. fl64 (acc + y)) 0 ys"

text \<open>
  \<open>calculateTrendLine\<close> as the engine evaluates it on binary64 numbers: the same operations
  in the same order, each one rounded. The arguments are binary64 values themselves.
\<close>

definition calculateTrendLine64 :: "'a point_scheme list \<Rightarrow> trend option" where
  "calculateTrendLine64 data =
     (if length data < 2 then None
      else
        let n = real (length data);
            sumX = foldl (\<lambda>acc d. fl64 (acc + p_x d)) 0 data;
            sumY = foldl (\<lambda>acc d. fl64 (acc + p_y d)) 0 data;
            sumXY = foldl (\<lambda>acc d. fl64 (acc + fl64 (p_x d * p_y d))) 0 data;
            sumXX = foldl (\<lambda>acc d. fl64 (acc + fl64 (p_x d * p_x d))) 0 data;
            denominator = fl64 (fl64 (n * sumXX) - fl64 (sumX * sumX))
        in if denominator = 0 then None
           else
             let s = fl64 (fl64 (fl64 (n * sumXY) - fl64 (sumX * sumY)) / denominator);
                 i = fl64 (fl64 (sumY - fl64 (s * sumX)) / n)
             in Some \<lparr>slope = s, intercept = i\<rparr>)"

text \<open>
  What an ordinary least-squares fit minimises: the sum of the squared vertical distances
  of the points from the line with slope \<open>a\<close> and intercept \<open>b\<close>. This definition follows
  the meaning of the term, not the source; \<open>calculateTrendLine\<close> is compared with it.
\<close>

definition squaredError :: "'a point_scheme list \<Rightarrow> real \<Rightarrow> real \<Rightarrow> real" where
  "squaredError data a b = (\<Sum>d\<leftarrow>data. (p_y d - (a * p_x d + b))\<^sup>2)"

subsection \<open>Chart points\<close>

record DataPoint = point +
  p_z :: real
  p_category :: string
  p_bias :: string
  p_isSocial :: bool
  p_source :: string
  p_title :: string
  p_sentiment :: string
  p_date :: real
  p_url :: string

text \<open>
  \<open>r.title || r.contents?.substring(0, 60) + '...' || 'Untitled'\<close>. The operator \<open>+\<close> binds
  tighter than \<open>||\<close>, and the optional chain ends before it: the middle operand is the
  concatenation of \<open>r.contents?.substring(0, 60)\<close> with \<open>'...'\<close>, where an undefined left
  operand is converted to the string \<open>undefined\<close>.
\<close>

definition pointTitle :: "SearchResult \<Rightarrow> string" where
  "pointTitle r =
     (if title r \<noteq> [] then title r
      else
        let t = (case contents r of None \<Rightarrow> ''undefined'' | Some c \<Rightarrow> substring0 c 60) @ ''...''
        in if t \<noteq> [] then t else ''Untitled'')"

text \<open>
  One selected result through \<open>.filter(r => r.date && r.sentiment_score !== undefined)\<close>
  and the \<open>.map\<close> after it: \<open>None\<close> when the filter drops the result, the mapped point
  otherwise. A \<open>Date\<close> is its time value in milliseconds.
\<close>

definition chartPoint :: "SearchResult \<Rightarrow> DataPoint option" where
  "chartPoint r =
     (if date r = 0 then None
      else case sentiment_score r of
        None \<Rightarrow> None
      | Some score \<Rightarrow>
          Some \<lparr>p_x = date r * 1000,
                p_y = score,
                p_z = \<bar>score\<bar> * 100 + 50,
                p_category = categorizeSource r,
                p_bias = getSourceBias r,
                p_isSocial = isSocialSource r,
                p_source = source r,
                p_title = pointTitle r,
                p_sentiment = (case sentiment r of None \<Rightarrow> [] | Some s \<Rightarrow> s),
                p_date = date r * 1000,
                p_url = url r\<rparr>)"

text \<open>
  \<open>selectedIndices.map(index => results[index]).filter(result => result !== undefined)\<close>:
  an index beyond the array reads \<open>undefined\<close> and is dropped.
\<close>

definition selectedResults :: "SearchResult list \<Rightarrow> nat list \<Rightarrow> SearchResult list" where
  "selectedResults results selectedIndices =
     List.map_filter (\<lambda>index. if index < length results then Some (results ! index) else None)
       selectedIndices"

text \<open>
  \<open>Array.prototype.sort\<close> with a comparator. ECMAScript requires the sort to be stable; it
  is modelled as an insertion sort that puts an element before the first one the
  comparator does not place before it.
\<close>

fun insertBy :: "('a \<Rightarrow> 'a \<Rightarrow> real) \<Rightarrow> 'a \<Rightarrow> 'a list \<Rightarrow> 'a list" where
  "insertBy cmp a [] = [a]"
| "insertBy cmp a (b # bs) = (if cmp a b \<le> 0 then a # b # bs else b # insertBy cmp a bs)"

fun sortBy :: "('a \<Rightarrow> 'a \<Rightarrow> real) \<Rightarrow> 'a list \<Rightarrow> 'a list" where
  "sortBy cmp [] = []"
| "sortBy cmp (a # as) = insertBy cmp a (sortBy cmp as)"

definition mappedPoints :: "SearchResult list \<Rightarrow> nat list \<Rightarrow> DataPoint list" where
  "mappedPoints results selectedIndices =
     List.map_filter chartPoint (selectedResults results selectedIndices)"

definition chartData :: "SearchResult list \<Rightarrow> nat list \<Rightarrow> DataPoint list" where
  "chartData results selectedIndices =
     sortBy (\<lambda>a b. p_x a - p_x b) (mappedPoints results selectedIndices)"

subsection \<open>Filter and statistics\<close>

definition filteredData :: "DataPoint list \<Rightarrow> string \<Rightarrow> DataPoint list" where
  "filteredData cd activeFilter =
     (if activeFilter = ''all'' then cd else filter (\<lambda>d. p_category d = activeFilter) cd)"

record stats =
  avg :: real
  positive :: nat
  negative :: nat
  neutral :: nat

text \<open>
  The statistics on binary64 numbers: the running sum and the quotient are rounded, and
  the thresholds are the binary64 values of the literals \<open>0.1\<close> and \<open>-0.1\<close> (the negation of
  a binary64 value is exact).
\<close>

definition calcStats :: "DataPoint list \<Rightarrow> stats" where
  "calcStats fd =
     (if length fd = 0 then \<lparr>avg = 0, positive = 0, negative = 0, neutral = 0\<rparr>
      else
        let sum = foldl (\<lambda>acc d. fl64 (acc + p_y d)) 0 fd
        in \<lparr>avg = fl64 (sum / real (length fd)),
            positive = length (filter (\<lambda>d. p_y d > fl64 0.1) fd),
            negative = length (filter (\<lambda>d. p_y d < - fl64 0.1) fd),
            neutral = length (filter (\<lambda>d. p_y d \<ge> - fl64 0.1 \<and> p_y d \<le> fl64 0.1) fd)\<rparr>)"

subsection \<open>Date range\<close>

record range =
  range_min :: real
  range_max :: real

text \<open>\<open>Math.min\<close> and \<open>Math.max\<close> of at least one argument.\<close>

definition math_min :: "real \<Rightarrow> real list \<Rightarrow> real" where
  "math_min a as = fold min as a"

definition math_max :: "real \<Rightarrow> real list \<Rightarrow> real" where
  "math_max a as = fold max as a"

text \<open>
  The branch for no chart points calls \<open>Date.now()\<close> twice; \<open>now1\<close> and \<open>now2\<close> are what the
  two calls return, in this order.
\<close>

definition dateRange :: "real \<Rightarrow> real \<Rightarrow> DataPoint list \<Rightarrow> range" where
  "dateRange now1 now2 cd =
     (case map p_x cd of
        [] \<Rightarrow> \<lparr>range_min = now1 - 86400000, range_max = now2\<rparr>
      | t # ts \<Rightarrow>
          let mn = math_min t ts;
              mx = math_max t ts;
              padding = (if (mx - mn) * 0.05 \<noteq> 0 then (mx - mn) * 0.05 else 3600000)
          in \<lparr>range_min = mn - padding, range_max = mx + padding\<rparr>)"

subsection \<open>Trend lines\<close>

record trendLines =
  left :: "point list"
  right :: "point list"

definition leftData :: "bool \<Rightarrow> DataPoint list \<Rightarrow> DataPoint list" where
  "leftData colorByBias cd =
     filter (\<lambda>d. if colorByBias
                 then p_category d = ''left'' \<or> (p_isSocial d \<and> p_bias d = ''left'')
                 else p_category d = ''left'') cd"

definition rightData :: "bool \<Rightarrow> DataPoint list \<Rightarrow> DataPoint list" where
  "rightData colorByBias cd =
     filter (\<lambda>d. if colorByBias
                 then p_category d = ''right'' \<or> (p_isSocial d \<and> p_bias d = ''right'')
                 else p_category d = ''right'') cd"

text \<open>
  The end points of a trend line, \<open>slope * x + intercept\<close> evaluated in binary64 and
  clipped; \<open>Math.max\<close> and \<open>Math.min\<close> return one of their arguments.
\<close>

definition generateTrendPoints :: "range \<Rightarrow> trend option \<Rightarrow> point list" where
  "generateTrendPoints dr tr =
     (case tr of
        None \<Rightarrow> []
      | Some t \<Rightarrow>
          [\<lparr>p_x = range_min dr,
            p_y = max (- 1) (min 1 (fl64 (fl64 (slope t * range_min dr) + intercept t)))\<rparr>,
           \<lparr>p_x = range_max dr,
            p_y = max (- 1) (min 1 (fl64 (fl64 (slope t * range_max dr) + intercept t)))\<rparr>])"

definition calcTrendLines :: "bool \<Rightarrow> range \<Rightarrow> DataPoint list \<Rightarrow> trendLines" where
  "calcTrendLines colorByBias dr cd =
     \<lparr>left = generateTrendPoints dr (calculateTrendLine64 (leftData colorByBias cd)),
      right = generateTrendPoints dr (calculateTrendLine64 (rightData colorByBias cd))\<rparr>"

subsection \<open>The component\<close>

text \<open>
  The derived values of one render: the inputs are the search state (\<open>results\<close>,
  \<open>selectedIndices\<close>), the two toggles and the two clock readings.
\<close>

record timeline =
  t_chartData :: "DataPoint list"
  t_filteredData :: "DataPoint list"
  t_stats :: stats
  t_dateRange :: range
  t_trendLines :: trendLines

definition SentimentTimeline ::
  "SearchResult list \<Rightarrow> nat list \<Rightarrow> string \<Rightarrow> bool \<Rightarrow> real \<Rightarrow> real \<Rightarrow> timeline" where
  "SentimentTimeline results selectedIndices activeFilter colorByBias now1 now2 =
     (let cd = chartData results selectedIndices;
          fd = filteredData cd activeFilter;
          dr = dateRange now1 now2 cd
      in \<lparr>t_chartData = cd,
          t_filteredData = fd,
          t_stats = calcStats fd,
          t_dateRange = dr,
          t_trendLines = calcTrendLines colorByBias dr cd\<rparr>)"

subsection \<open>Example inputs\<close>

text \<open>
  A news article of a right-leaning outlet without a bias field, a social post labelled
  as left, and the article again with an explicit bias that contradicts its outlet.
\<close>

definition fox_news :: SearchResult where
  "fox_news = \<lparr>source = ''Fox News'', title = ''Markets'', url = ''https://a.example'',
     contents = Some ''Stocks fell'', author = ''staff'', date = 100,
     sentiment_score = Some (- 0.5), sentiment = None, bias = None\<rparr>"

definition reddit_left :: SearchResult where
  "reddit_left = \<lparr>source = ''reddit'', title = [], url = ''https://b.example'',
     contents = Some [], author = ''u1'', date = 200,
     sentiment_score = Some 0.2, sentiment = Some ''positive'', bias = Some ''left''\<rparr>"

definition fox_left :: SearchResult where
  "fox_left = fox_news\<lparr>bias := Some ''left''\<rparr>"

text \<open>
  Three articles of a left-leaning outlet published in the same second, and a result
  with neither title nor contents.
\<close>

definition cnn_at :: "real \<Rightarrow> real \<Rightarrow> SearchResult" where
  "cnn_at t score = \<lparr>source = ''CNN'', title = ''Vote'', url = ''https://c.example'',
     contents = Some ''Results'', author = ''desk'', date = t,
     sentiment_score = Some score, sentiment = None, bias = None\<rparr>"

definition same_instant :: "SearchResult list" where
  "same_instant = [cnn_at 1709925458 0.5, cnn_at 1709925458 0.25, cnn_at 1709925458 (- 0.5)]"

definition blank_result :: SearchResult where
  "blank_result = \<lparr>source = ''AP'', title = [], url = ''https://d.example'',
     contents = Some [], author = [], date = 300,
     sentiment_score = Some 0, sentiment = None, bias = None\<rparr>"

text \<open>Three articles whose scores are the binary64 values of 0.1, 0.2 and 0.3.\<close>

definition tenths :: "SearchResult list" where
  "tenths = [cnn_at 100 (fl64 0.1), cnn_at 200 (fl64 0.2), cnn_at 300 (fl64 0.3)]"

section \<open>Properties\<close>

subsection \<open>Auxiliary facts\<close>

lemma foldl_plus_sum_list:
  "foldl (\<lambda>acc d. acc + f d) a ds = a + sum_list (map f ds)" for a :: real
  by (induction ds arbitrary: a) simp_all

lemma set_insertBy: "set (insertBy cmp a bs) = insert a (set bs)"
  by (induction bs) auto

lemma mset_insertBy: "mset (insertBy cmp a bs) = add_mset a (mset bs)"
  by (induction bs) auto

lemma mset_sortBy: "mset (sortBy cmp ds) = mset ds"
  by (induction ds) (simp_all add: mset_insertBy)

lemma sorted_insertBy:
  "sorted (map p_x bs) \<Longrightarrow> sorted (map p_x (insertBy (\<lambda>a b. p_x a - p_x b) a bs))"
  by (induction bs) (auto simp: set_insertBy)

lemma sorted_sortBy: "sorted (map p_x (sortBy (\<lambda>a b. p_x a - p_x b) ds))"
  by (induction ds) (simp_all add: sorted_insertBy)

lemma filter_insertBy:
  "filter (\<lambda>d. p_x d = t) (insertBy (\<lambda>a b. p_x a - p_x b) a bs) =
     (if p_x a = t then a # filter (\<lambda>d. p_x d = t) bs else filter (\<lambda>d. p_x d = t) bs)"
  by (induction bs) auto

lemma filter_sortBy:
  "filter (\<lambda>d. p_x d = t) (sortBy (\<lambda>a b. p_x a - p_x b) ds) = filter (\<lambda>d. p_x d = t) ds"
  by (induction ds) (simp_all add: filter_insertBy)

lemma chartPoint_None: "chartPoint r = None \<longleftrightarrow> date r = 0 \<or> sentiment_score r = None"
  by (simp add: chartPoint_def split: option.splits)

lemma map_filter_as_filter:
  "map Some (List.map_filter f xs) = map f (filter (\<lambda>x. f x \<noteq> None) xs)"
  by (induction xs) (auto simp: List.map_filter_simps split: option.splits)

lemma chartPoint_social:
  "chartPoint r = Some d \<Longrightarrow> p_isSocial d \<Longrightarrow> p_category d = ''social''"
  by (auto simp: chartPoint_def isSocialSource_def categorizeSource_def Let_def
      split: if_splits option.splits)

lemma set_map_filter: "set (List.map_filter f xs) = {y. \<exists>x \<in> set xs. f x = Some y}"
  by (induction xs) (auto simp: List.map_filter_simps split: option.splits)

lemma chartData_social:
  assumes "d \<in> set (chartData results sel)" and "p_isSocial d"
  shows "p_category d = ''social''"
proof -
  from assms(1) have "d \<in> set (mappedPoints results sel)"
    by (metis chartData_def mset_sortBy set_mset_mset)
  then obtain r where "chartPoint r = Some d"
    by (auto simp: mappedPoints_def set_map_filter)
  then show ?thesis using assms(2) by (rule chartPoint_social)
qed

lemma fold_min_Min: "fold min ts (t::real) = Min (set (t # ts))"
  by (rule Min.set_eq_fold [symmetric])

lemma fold_max_Max: "fold max ts (t::real) = Max (set (t # ts))"
  by (rule Max.set_eq_fold [symmetric])

lemma calculateTrendLine_sums:
  "calculateTrendLine data =
     (if length data < 2 then None
      else if real (length data) * (\<Sum>d\<leftarrow>data. p_x d * p_x d)
                - (\<Sum>d\<leftarrow>data. p_x d) * (\<Sum>d\<leftarrow>data. p_x d) = 0 then None
      else Some \<lparr>slope =
                   (real (length data) * (\<Sum>d\<leftarrow>data. p_x d * p_y d)
                      - (\<Sum>d\<leftarrow>data. p_x d) * (\<Sum>d\<leftarrow>data. p_y d))
                   / (real (length data) * (\<Sum>d\<leftarrow>data. p_x d * p_x d)
                      - (\<Sum>d\<leftarrow>data. p_x d) * (\<Sum>d\<leftarrow>data. p_x d)),
                 intercept =
                   ((\<Sum>d\<leftarrow>data. p_y d)
                      - (real (length data) * (\<Sum>d\<leftarrow>data. p_x d * p_y d)
                           - (\<Sum>d\<leftarrow>data. p_x d) * (\<Sum>d\<leftarrow>data. p_y d))
                        / (real (length data) * (\<Sum>d\<leftarrow>data. p_x d * p_x d)
                           - (\<Sum>d\<leftarrow>data. p_x d) * (\<Sum>d\<leftarrow>data. p_x d))
                        * (\<Sum>d\<leftarrow>data. p_x d))
                   / real (length data)\<rparr>)"
  by (simp add: calculateTrendLine_def Let_def foldl_plus_sum_list)

lemma same_x_sums:
  assumes "\<forall>d \<in> set data. p_x d = c"
  shows "(\<Sum>d\<leftarrow>data. p_x d) = real (length data) * c"
    and "(\<Sum>d\<leftarrow>data. p_x d * p_x d) = real (length data) * (c * c)"
  using assms by (induction data) (simp_all add: algebra_simps)

lemma same_x_denominator:
  assumes "\<forall>d \<in> set data. p_x d = c"
  shows "real (length data) * (\<Sum>d\<leftarrow>data. p_x d * p_x d)
           - (\<Sum>d\<leftarrow>data. p_x d) * (\<Sum>d\<leftarrow>data. p_x d) = 0"
  by (simp add: same_x_sums [OF assms])

lemma residual_sums:
  fixes data :: "'a point_scheme list"
  defines "n \<equiv> real (length data)"
  defines "Sx \<equiv> (\<Sum>d\<leftarrow>data. p_x d)" and "Sy \<equiv> (\<Sum>d\<leftarrow>data. p_y d)"
  defines "Sxy \<equiv> (\<Sum>d\<leftarrow>data. p_x d * p_y d)" and "Sxx \<equiv> (\<Sum>d\<leftarrow>data. p_x d * p_x d)"
  shows "(\<Sum>d\<leftarrow>data. p_y d - (s * p_x d + i)) = Sy - s * Sx - n * i"
    and "(\<Sum>d\<leftarrow>data. p_x d * (p_y d - (s * p_x d + i))) = Sxy - s * Sxx - i * Sx"
  unfolding n_def Sx_def Sy_def Sxy_def Sxx_def
  by (induction data) (simp_all add: algebra_simps)

lemma squaredError_split:
  fixes data :: "'a point_scheme list"
  shows "squaredError data a b =
     squaredError data s i
     + 2 * (s - a) * (\<Sum>d\<leftarrow>data. p_x d * (p_y d - (s * p_x d + i)))
     + 2 * (i - b) * (\<Sum>d\<leftarrow>data. p_y d - (s * p_x d + i))
     + (\<Sum>d\<leftarrow>data. ((s - a) * p_x d + (i - b))\<^sup>2)"
  unfolding squaredError_def
  by (induction data) (simp_all add: algebra_simps power2_eq_square)

lemma least_squares:
  fixes data :: "'a point_scheme list"
  defines "n \<equiv> real (length data)"
  defines "Sx \<equiv> (\<Sum>d\<leftarrow>data. p_x d)" and "Sy \<equiv> (\<Sum>d\<leftarrow>data. p_y d)"
  defines "Sxy \<equiv> (\<Sum>d\<leftarrow>data. p_x d * p_y d)" and "Sxx \<equiv> (\<Sum>d\<leftarrow>data. p_x d * p_x d)"
  assumes n: "n \<noteq> 0" and D: "n * Sxx - Sx * Sx \<noteq> 0"
    and s: "s = (n * Sxy - Sx * Sy) / (n * Sxx - Sx * Sx)"
    and i: "i = (Sy - s * Sx) / n"
  shows "squaredError data s i \<le> squaredError data a b"
proof -
  have r1: "(\<Sum>d\<leftarrow>data. p_y d - (s * p_x d + i)) = 0"
    using n by (simp add: residual_sums(1) i n_def Sx_def Sy_def)
  have e1: "s * (n * Sxx - Sx * Sx) = n * Sxy - Sx * Sy"
    using D by (simp add: s)
  have e2: "n * i = Sy - s * Sx"
    using n by (simp add: i)
  have "n * (Sxy - s * Sxx - i * Sx) =
        (n * Sxy - Sx * Sy) - s * (n * Sxx - Sx * Sx) + (Sy - s * Sx - n * i) * Sx"
    by (simp add: algebra_simps)
  also have "\<dots> = 0"
    unfolding e1 e2 by simp
  finally have "n * (Sxy - s * Sxx - i * Sx) = 0" .
  with n have "Sxy - s * Sxx - i * Sx = 0" by simp
  then have r2: "(\<Sum>d\<leftarrow>data. p_x d * (p_y d - (s * p_x d + i))) = 0"
    by (simp add: residual_sums(2) Sxy_def Sxx_def Sx_def)
  have "0 \<le> (\<Sum>d\<leftarrow>data. ((s - a) * p_x d + (i - b))\<^sup>2)"
    by (rule sum_list_nonneg) auto
  then show ?thesis
    by (simp add: squaredError_split [of data a b s i] r1 r2)
qed

text \<open>The rounding model: the exponent brackets the value, rounding moves a value
  by at most half the spacing, and the values with a 53-bit significand, normal or
  subnormal, are left as they are.\<close>

lemma round_half_even_error: "\<bar>of_int (round_half_even x) - x\<bar> \<le> 1 / 2"
  unfolding round_half_even_def Let_def by (auto simp: abs_if) linarith+

lemma round_half_even_int: "round_half_even (of_int m) = m"
  by (simp add: round_half_even_def)

lemma exponent2_ge_1:
  assumes "1 \<le> \<bar>x\<bar>"
  shows "2 powi (exponent2 x) \<le> \<bar>x\<bar> \<and> \<bar>x\<bar> < 2 powi (exponent2 x + 1)"
proof -
  let ?m = "\<lfloor>\<bar>x\<bar>\<rfloor>"
  from assms have m: "0 < ?m" by simp
  then have b1: "1 \<le> bitlen ?m" by (simp add: bitlen_alt_def)
  then have e: "exponent2 x = bitlen ?m - 1" using assms by (simp add: exponent2_def)
  from bitlen_bounds [OF m] have lo: "2 ^ nat (bitlen ?m - 1) \<le> ?m" and hi: "?m < 2 ^ nat (bitlen ?m)"
    by simp_all
  from lo have "real_of_int (2 ^ nat (bitlen ?m - 1)) \<le> real_of_int ?m" by (rule of_int_le_iff [THEN iffD2])
  then have "2 ^ nat (bitlen ?m - 1) \<le> real_of_int ?m" by simp
  moreover have "real_of_int ?m \<le> \<bar>x\<bar>" by simp
  ultimately have "2 ^ nat (bitlen ?m - 1) \<le> \<bar>x\<bar>" by linarith
  then have l: "2 powi (exponent2 x) \<le> \<bar>x\<bar>" using b1 by (simp add: e power_int_def)
  from hi have "?m + 1 \<le> 2 ^ nat (bitlen ?m)" by simp
  then have "real_of_int (?m + 1) \<le> real_of_int (2 ^ nat (bitlen ?m))" by (rule of_int_le_iff [THEN iffD2])
  then have "real_of_int ?m + 1 \<le> 2 ^ nat (bitlen ?m)" by simp
  moreover have "\<bar>x\<bar> < real_of_int ?m + 1" by linarith
  ultimately have "\<bar>x\<bar> < 2 ^ nat (bitlen ?m)" by linarith
  then have h: "\<bar>x\<bar> < 2 powi (exponent2 x + 1)" using b1 by (simp add: e power_int_def)
  from l h show ?thesis ..
qed

lemma exponent2_less_1:
  assumes "x \<noteq> 0" and "\<bar>x\<bar> < 1"
  shows "2 powi (exponent2 x) \<le> \<bar>x\<bar> \<and> \<bar>x\<bar> < 2 powi (exponent2 x + 1)"
proof -
  let ?c = "\<lceil>1 / \<bar>x\<bar>\<rceil>"
  let ?k = "bitlen (?c - 1)"
  from assms have inv: "1 < 1 / \<bar>x\<bar>" by simp
  then have c: "0 < ?c - 1" by linarith
  then have k1: "1 \<le> ?k" by (simp add: bitlen_alt_def)
  from assms have e: "exponent2 x = - ?k" by (simp add: exponent2_def)
  from bitlen_bounds [OF c] have lo: "2 ^ nat (?k - 1) \<le> ?c - 1" and hi: "?c - 1 < 2 ^ nat ?k"
    by simp_all
  from hi have "?c \<le> 2 ^ nat ?k" by simp
  then have "real_of_int ?c \<le> real_of_int (2 ^ nat ?k)" by (rule of_int_le_iff [THEN iffD2])
  then have "real_of_int ?c \<le> 2 ^ nat ?k" by simp
  moreover have "1 / \<bar>x\<bar> \<le> real_of_int ?c" by (rule le_of_int_ceiling)
  ultimately have "1 / \<bar>x\<bar> \<le> 2 ^ nat ?k" by linarith
  with assms(1) have "1 / 2 ^ nat ?k \<le> \<bar>x\<bar>"
    by (simp add: field_simps)
  then have l: "2 powi (exponent2 x) \<le> \<bar>x\<bar>" using k1 by (simp add: e power_int_def power_one_over)
  from lo have "real_of_int (2 ^ nat (?k - 1)) \<le> real_of_int (?c - 1)" by (rule of_int_le_iff [THEN iffD2])
  then have "2 ^ nat (?k - 1) \<le> real_of_int ?c - 1" by simp
  moreover have "real_of_int ?c - 1 < 1 / \<bar>x\<bar>" by linarith
  ultimately have "2 ^ nat (?k - 1) < 1 / \<bar>x\<bar>" by linarith
  with assms(1) have lt: "\<bar>x\<bar> < 1 / 2 ^ nat (?k - 1)"
    by (simp add: field_simps)
  have h: "\<bar>x\<bar> < 2 powi (exponent2 x + 1)"
  proof (cases "?k = 1")
    case True
    with lt show ?thesis by (simp add: e power_int_def)
  next
    case False
    with k1 have "\<not> 0 \<le> - ?k + 1" and "nat (- (- ?k + 1)) = nat (?k - 1)" by simp_all
    with lt show ?thesis by (simp add: e power_int_def power_one_over)
  qed
  from l h show ?thesis ..
qed

lemma exponent2_bounds:
  assumes "x \<noteq> 0"
  shows "2 powi (exponent2 x) \<le> \<bar>x\<bar>" and "\<bar>x\<bar> < 2 powi (exponent2 x + 1)"
  using assms exponent2_ge_1 [of x] exponent2_less_1 [of x] by (cases "1 \<le> \<bar>x\<bar>"; simp)+

lemma exponent2_unique:
  assumes "2 powi e \<le> \<bar>x\<bar>" and "\<bar>x\<bar> < 2 powi (e + 1)"
  shows "exponent2 x = e"
proof -
  have "(0::real) < 2 powi e" by simp
  with assms(1) have "0 < \<bar>x\<bar>" by linarith
  then have x: "x \<noteq> 0" by simp
  note b = exponent2_bounds [OF x]
  have "\<not> exponent2 x < e"
  proof
    assume "exponent2 x < e"
    then have "(2::real) powi (exponent2 x + 1) \<le> 2 powi e"
      by (intro power_int_increasing) simp_all
    with b(2) assms(1) show False by linarith
  qed
  moreover have "\<not> e < exponent2 x"
  proof
    assume "e < exponent2 x"
    then have "(2::real) powi (e + 1) \<le> 2 powi (exponent2 x)"
      by (intro power_int_increasing) simp_all
    with b(1) assms(2) show False by linarith
  qed
  ultimately show ?thesis by linarith
qed

lemma fl64_error:
  "\<bar>fl64 x - x\<bar> \<le> 2 powi (max (- 1022) (exponent2 x) - 52) / 2"
proof (cases "x = 0")
  case True
  then show ?thesis by (simp add: fl64_def)
next
  case False
  let ?u = "(2::real) powi (max (- 1022) (exponent2 x) - 52)"
  have u: "0 < ?u" by simp
  have "fl64 x - x = (of_int (round_half_even (x / ?u)) - x / ?u) * ?u"
    using False u by (simp add: fl64_def Let_def left_diff_distrib)
  then have "\<bar>fl64 x - x\<bar> = \<bar>of_int (round_half_even (x / ?u)) - x / ?u\<bar> * \<bar>?u\<bar>"
    by (simp only: abs_mult)
  also have "\<dots> = \<bar>of_int (round_half_even (x / ?u)) - x / ?u\<bar> * ?u"
    using u by simp
  also have "\<dots> \<le> 1 / 2 * ?u"
    using u round_half_even_error [of "x / ?u"] by (intro mult_right_mono) simp_all
  finally show ?thesis by simp
qed

lemma fl64_normal:
  assumes "2 ^ 52 \<le> \<bar>m\<bar>" and "\<bar>m\<bar> < 2 ^ 53" and "- 1074 \<le> k"
  shows "fl64 (of_int m * 2 powi k) = of_int m * 2 powi k"
proof -
  let ?x = "real_of_int m * 2 powi k"
  have p: "(0::real) < 2 powi k" by simp
  have ax: "\<bar>?x\<bar> = real_of_int \<bar>m\<bar> * 2 powi k"
    by (simp add: abs_mult)
  from assms(1) have "real_of_int (2 ^ 52) \<le> real_of_int \<bar>m\<bar>" by (rule of_int_le_iff [THEN iffD2])
  then have "2 ^ 52 * 2 powi k \<le> real_of_int \<bar>m\<bar> * 2 powi k"
    using p by (intro mult_right_mono) simp_all
  then have lo: "2 powi (k + 52) \<le> \<bar>?x\<bar>"
    unfolding ax by (simp add: power_int_add)
  from assms(2) have "real_of_int \<bar>m\<bar> < real_of_int (2 ^ 53)" by (rule of_int_less_iff [THEN iffD2])
  then have "real_of_int \<bar>m\<bar> * 2 powi k < 2 ^ 53 * 2 powi k"
    using p by (intro mult_strict_right_mono) simp_all
  then have hi: "\<bar>?x\<bar> < 2 powi (k + 52 + 1)"
    unfolding ax by (simp add: power_int_add)
  from lo hi have e: "exponent2 ?x = k + 52" by (rule exponent2_unique)
  from assms(1) have "m \<noteq> 0" by auto
  then have nz: "?x \<noteq> 0" by simp
  from assms(3) have "max (- 1022) (k + 52) - 52 = k" by simp
  with nz show ?thesis
    by (simp add: fl64_def e Let_def round_half_even_int)
qed

lemma fl64_subnormal:
  assumes "\<bar>m\<bar> < 2 ^ 52"
  shows "fl64 (of_int m * 2 powi (- 1074)) = of_int m * 2 powi (- 1074)"
proof (cases "m = 0")
  case True
  then show ?thesis by (simp add: fl64_def)
next
  case False
  let ?x = "real_of_int m * 2 powi (- 1074)"
  from False have nz: "?x \<noteq> 0" by simp
  have ax: "\<bar>?x\<bar> = real_of_int \<bar>m\<bar> * 2 powi (- 1074)"
    by (simp add: abs_mult)
  from assms have "real_of_int \<bar>m\<bar> < real_of_int (2 ^ 52)" by (rule of_int_less_iff [THEN iffD2])
  then have "real_of_int \<bar>m\<bar> * 2 powi (- 1074) < 2 ^ 52 * 2 powi (- 1074)"
    by (intro mult_strict_right_mono) simp_all
  also have "(2::real) ^ 52 * 2 powi (- 1074) = 2 powi (- 1022)"
    using power_int_add [of "2::real" 52 "- 1074"] by simp
  finally have "\<bar>?x\<bar> < 2 powi (- 1022)" unfolding ax .
  with exponent2_bounds(1) [OF nz] have "(2::real) powi (exponent2 ?x) < 2 powi (- 1022)"
    by linarith
  then have "exponent2 ?x < - 1022"
    by (metis not_le one_le_numeral power_int_increasing not_less)
  then have "max (- 1022) (exponent2 ?x) - 52 = - 1074" by simp
  with nz show ?thesis
    by (simp add: fl64_def Let_def round_half_even_int)
qed

text \<open>The binary64 value of the literal \<open>0.1\<close>; it lies above one tenth.\<close>

lemma fl64_tenth: "fl64 0.1 = 3602879701896397 / 36028797018963968"
  by code_simp

text \<open>
  Rounding errors: one operation, the running sum of values between -1 and 1, and the
  rounded mean of such values.
\<close>

lemma unit_roundoff_pos: "0 < unit_roundoff"
  by (simp add: unit_roundoff_def)

lemma least_half_spacing_bounds: "0 < least_half_spacing" "least_half_spacing \<le> unit_roundoff"
  by (simp_all add: least_half_spacing_def unit_roundoff_def)

lemma fl64_rel_error: "\<bar>fl64 x - x\<bar> \<le> unit_roundoff * \<bar>x\<bar> + least_half_spacing"
proof (cases "x = 0")
  case True
  then show ?thesis using least_half_spacing_bounds(1) by (simp add: fl64_def)
next
  case False
  note e = fl64_error [of x]
  show ?thesis
  proof (cases "- 1022 \<le> exponent2 x")
    case True
    then have "max (- 1022) (exponent2 x) = exponent2 x" by simp
    with e have "\<bar>fl64 x - x\<bar> \<le> 2 powi (exponent2 x - 52) / 2" by simp
    also have "(2::real) powi (exponent2 x - 52) = 2 powi (exponent2 x) / 2 ^ 52"
      by (simp add: power_int_diff)
    also have "2 powi (exponent2 x) / 2 ^ 52 / 2 = unit_roundoff * 2 powi (exponent2 x)"
      by (simp add: unit_roundoff_def)
    also have "\<dots> \<le> unit_roundoff * \<bar>x\<bar>"
      using exponent2_bounds(1) [OF False] unit_roundoff_pos by (intro mult_left_mono) simp_all
    finally show ?thesis using least_half_spacing_bounds(1) by linarith
  next
    case False
    then have "max (- 1022) (exponent2 x) - 52 = - 1074" by simp
    with e have "\<bar>fl64 x - x\<bar> \<le> least_half_spacing"
      by (simp only: least_half_spacing_def)
    moreover have "0 \<le> unit_roundoff * \<bar>x\<bar>"
      using unit_roundoff_pos by simp
    ultimately show ?thesis by linarith
  qed
qed

lemma sum_list_abs_le:
  "(\<forall>y \<in> set ys. \<bar>y\<bar> \<le> 1) \<Longrightarrow> \<bar>sum_list ys\<bar> \<le> real (length ys)" for ys :: "real list"
  by (induction ys) (simp_all, linarith)

lemma sum64_snoc: "sum64 (ys @ [y]) = fl64 (sum64 ys + y)"
  by (simp add: sum64_def)

lemma sum64_error:
  assumes "\<forall>y \<in> set ys. \<bar>y\<bar> \<le> 1" and "length ys \<le> 2 ^ 53"
  shows "\<bar>sum64 ys - sum_list ys\<bar> \<le> 2 * unit_roundoff * (real (length ys))\<^sup>2"
  using assms
proof (induction ys rule: rev_induct)
  case Nil
  then show ?case by (simp add: sum64_def)
next
  case (snoc y ys)
  let ?u = unit_roundoff
  let ?m = "real (length ys)"
  let ?E = "\<bar>sum64 ys - sum_list ys\<bar>"
  from snoc.prems have ys: "\<forall>y \<in> set ys. \<bar>y\<bar> \<le> 1" and y: "\<bar>y\<bar> \<le> 1"
    and len: "length ys \<le> 2 ^ 53" by simp_all
  from snoc.IH [OF ys len] have E: "?E \<le> 2 * ?u * ?m\<^sup>2" .
  have u: "0 < ?u" by (rule unit_roundoff_pos)
  from len have "?m \<le> 2 ^ 53" by (metis of_nat_le_iff of_nat_numeral of_nat_power)
  then have um1: "?u * ?m \<le> 1" by (simp add: unit_roundoff_def)
  have um0: "0 \<le> ?u * ?m" using u by simp
  have "(?u * ?m) * (?u * ?m) \<le> 1 * (?u * ?m)"
    using um1 um0 by (intro mult_right_mono) simp_all
  then have sq: "?u * (?u * ?m\<^sup>2) \<le> ?u * ?m"
    by (simp add: power2_eq_square algebra_simps)
  have "?u * ?E \<le> ?u * (2 * ?u * ?m\<^sup>2)"
    using E u by (intro mult_left_mono) simp_all
  with sq have uE: "?u * ?E \<le> 2 * ?u * ?m" by (simp add: algebra_simps)
  have s: "\<bar>sum_list ys\<bar> \<le> ?m" using ys by (rule sum_list_abs_le)
  have a: "\<bar>sum64 ys + y\<bar> \<le> ?m + 1 + ?E" using s y by linarith
  have "\<bar>fl64 (sum64 ys + y) - (sum64 ys + y)\<bar> \<le> ?u * \<bar>sum64 ys + y\<bar> + least_half_spacing"
    by (rule fl64_rel_error)
  also have "\<dots> \<le> ?u * (?m + 1 + ?E) + ?u"
    using a u least_half_spacing_bounds(2) mult_left_mono [of "\<bar>sum64 ys + y\<bar>" "?m + 1 + ?E" ?u]
    by linarith
  finally have r: "\<bar>fl64 (sum64 ys + y) - (sum64 ys + y)\<bar> \<le> ?u * ?m + ?u + ?u * ?E + ?u"
    by (simp add: algebra_simps)
  have "\<bar>sum64 (ys @ [y]) - sum_list (ys @ [y])\<bar>
        \<le> \<bar>fl64 (sum64 ys + y) - (sum64 ys + y)\<bar> + ?E"
    by (simp add: sum64_snoc)
  also have "\<dots> \<le> ?u * ?m + ?u + 2 * ?u * ?m + ?u + 2 * ?u * ?m\<^sup>2"
    using r uE E by linarith
  also have "\<dots> \<le> 2 * ?u * (?m + 1)\<^sup>2"
    using um0 by (simp add: power2_eq_square algebra_simps)
  finally show ?case by (simp add: algebra_simps)
qed

lemma avg64_error:
  assumes ne: "ys \<noteq> []" and ys: "\<forall>y \<in> set ys. \<bar>y\<bar> \<le> 1" and len: "length ys \<le> 2 ^ 53"
  shows "\<bar>fl64 (sum64 ys / real (length ys)) - sum_list ys / real (length ys)\<bar>
           \<le> (real (length ys) + 2) / 2 ^ 52"
proof -
  let ?u = unit_roundoff
  let ?n = "real (length ys)"
  let ?E = "\<bar>sum64 ys - sum_list ys\<bar>"
  let ?q = "sum64 ys / ?n"
  from ne have n: "1 \<le> ?n" by (cases ys) simp_all
  then have n0: "0 < ?n" by linarith
  have u: "0 < ?u" by (rule unit_roundoff_pos)
  from len have "?n \<le> 2 ^ 53" by (metis of_nat_le_iff of_nat_numeral of_nat_power)
  then have un1: "?u * ?n \<le> 1" by (simp add: unit_roundoff_def)
  have E: "?E \<le> 2 * ?u * ?n\<^sup>2" using ys len by (rule sum64_error)
  then have "?E \<le> (2 * ?u * ?n) * ?n" by (simp add: power2_eq_square algebra_simps)
  then have En: "?E / ?n \<le> 2 * ?u * ?n" using n0 by (simp add: pos_divide_le_eq)
  have s: "\<bar>sum_list ys\<bar> \<le> ?n" using ys by (rule sum_list_abs_le)
  have "\<bar>sum64 ys\<bar> \<le> ?n + ?E" using s by linarith
  then have "\<bar>sum64 ys\<bar> / ?n \<le> (?n + ?E) / ?n" using n0 by (intro divide_right_mono) simp_all
  also have "\<dots> = 1 + ?E / ?n" using n0 by (simp add: add_divide_distrib)
  finally have q: "\<bar>?q\<bar> \<le> 1 + 2 * ?u * ?n" using En n0 by simp
  have "?u * \<bar>?q\<bar> \<le> ?u * (1 + 2 * ?u * ?n)"
    using q u by (intro mult_left_mono) simp_all
  also have "\<dots> = ?u + 2 * ?u * (?u * ?n)" by (simp add: algebra_simps)
  also have "\<dots> \<le> ?u + 2 * ?u * 1"
    using un1 u by (intro add_left_mono mult_left_mono) simp_all
  finally have uq: "?u * \<bar>?q\<bar> \<le> 3 * ?u" by simp
  have "\<bar>fl64 ?q - ?q\<bar> \<le> ?u * \<bar>?q\<bar> + least_half_spacing" by (rule fl64_rel_error)
  with uq least_half_spacing_bounds(2) have r: "\<bar>fl64 ?q - ?q\<bar> \<le> 4 * ?u" by linarith
  have "?q - sum_list ys / ?n = (sum64 ys - sum_list ys) / ?n"
    by (simp add: diff_divide_distrib)
  then have "\<bar>?q - sum_list ys / ?n\<bar> = ?E / ?n" using n0 by simp
  with En have d: "\<bar>?q - sum_list ys / ?n\<bar> \<le> 2 * ?u * ?n" by simp
  have "\<bar>fl64 ?q - sum_list ys / ?n\<bar> \<le> \<bar>fl64 ?q - ?q\<bar> + \<bar>?q - sum_list ys / ?n\<bar>" by linarith
  also have "\<dots> \<le> 4 * ?u + 2 * ?u * ?n" using r d by linarith
  also have "\<dots> = (?n + 2) / 2 ^ 52" by (simp add: unit_roundoff_def field_simps)
  finally show ?thesis .
qed

lemma calcStats_sum64:
  "foldl (\<lambda>acc d. fl64 (acc + p_y d)) 0 fd = sum64 (map p_y fd)"
  by (simp add: sum64_def foldl_map)

subsection \<open>Classifier\<close>

text \<open>
  C3. The category respects the precedence social detection, then explicit bias, then
  keyword lists: a result whose source is social has category \<open>social\<close> whatever its
  bias field and whatever the keyword lists say; a result whose source is not social and
  whose bias field is literally \<open>left\<close> or \<open>right\<close> has that bias as its category,
  whatever the keyword lists say.
\<close>

theorem categorizeSource_precedence:
  "(isSocialSource r \<longrightarrow> categorizeSource r = ''social'') \<and>
   (\<not> isSocialSource r \<and> (bias r = Some ''left'' \<or> bias r = Some ''right'') \<longrightarrow>
      Some (categorizeSource r) = bias r)"
  by (auto simp: isSocialSource_def categorizeSource_def truthy_def Let_def)

theorem categorizeSource_precedence_witness:
  "isSocialSource reddit_left \<and> bias reddit_left = Some ''left'' \<and>
   categorizeSource reddit_left = ''social'' \<and>
   \<not> isSocialSource fox_left \<and> bias fox_left = Some ''left'' \<and>
   someIncluded RIGHT_SOURCES (toLowerCase (source fox_left)) \<and>
   categorizeSource fox_left = ''left''"
proof -
  have s: "isSocialSource reddit_left" by code_simp
  have b1: "bias reddit_left = Some ''left''" by code_simp
  have n: "\<not> isSocialSource fox_left" by code_simp
  have b2: "bias fox_left = Some ''left''" by code_simp
  have k: "someIncluded RIGHT_SOURCES (toLowerCase (source fox_left))" by code_simp
  from categorizeSource_precedence [of reddit_left] s
  have c1: "categorizeSource reddit_left = ''social''" by blast
  from categorizeSource_precedence [of fox_left] n b2
  have c2: "categorizeSource fox_left = ''left''" by simp
  from s b1 c1 n b2 k c2 show ?thesis by blast
qed

subsection \<open>Statistics\<close>

text \<open>
  C7, as amended. The statistics of a point list are computed on binary64 numbers:
  \<open>avg\<close> is the left-to-right sum of the sentiment values, each addition rounded,
  divided by the number of points and rounded, and 0 on the empty list; for sentiment
  values between -1 and 1 it differs from the arithmetic mean by at most
  \<open>(n + 2) / 2 ^ 52\<close> for \<open>n\<close> points, \<open>n\<close> at most \<open>2 ^ 53\<close>. \<open>positive\<close> counts the points with sentiment strictly
  above the binary64 value of 0.1, \<open>negative\<close> those strictly below its negation,
  \<open>neutral\<close> those in the closed interval between the two. On the empty list all four
  are zero, and a single point whose sentiment is exactly the binary64 value of 0.1 or
  of -0.1 is counted as neutral.
\<close>

theorem calcStats_binary64:
  "avg (calcStats fd) =
     (if fd = [] then 0 else fl64 (sum64 (map p_y fd) / real (length fd))) \<and>
   ((\<forall>d \<in> set fd. \<bar>p_y d\<bar> \<le> 1) \<and> length fd \<le> 2 ^ 53 \<longrightarrow>
      \<bar>avg (calcStats fd) - (if fd = [] then 0 else sum_list (map p_y fd) / real (length fd))\<bar>
        \<le> (real (length fd) + 2) / 2 ^ 52) \<and>
   positive (calcStats fd) = length (filter (\<lambda>d. p_y d > fl64 0.1) fd) \<and>
   negative (calcStats fd) = length (filter (\<lambda>d. p_y d < - fl64 0.1) fd) \<and>
   neutral (calcStats fd) = length (filter (\<lambda>d. - fl64 0.1 \<le> p_y d \<and> p_y d \<le> fl64 0.1) fd) \<and>
   calcStats [] = \<lparr>avg = 0, positive = 0, negative = 0, neutral = 0\<rparr> \<and>
   calcStats [d\<lparr>p_y := fl64 0.1\<rparr>] =
     \<lparr>avg = fl64 0.1, positive = 0, negative = 0, neutral = 1\<rparr> \<and>
   calcStats [d\<lparr>p_y := - fl64 0.1\<rparr>] =
     \<lparr>avg = - fl64 0.1, positive = 0, negative = 0, neutral = 1\<rparr>"
proof (intro conjI impI)
  show a: "avg (calcStats fd) =
     (if fd = [] then 0 else fl64 (sum64 (map p_y fd) / real (length fd)))"
    by (simp add: calcStats_def Let_def calcStats_sum64)
  show "positive (calcStats fd) = length (filter (\<lambda>d. p_y d > fl64 0.1) fd)"
    by (simp add: calcStats_def Let_def)
  show "negative (calcStats fd) = length (filter (\<lambda>d. p_y d < - fl64 0.1) fd)"
    by (simp add: calcStats_def Let_def)
  show "neutral (calcStats fd) =
      length (filter (\<lambda>d. - fl64 0.1 \<le> p_y d \<and> p_y d \<le> fl64 0.1) fd)"
    by (simp add: calcStats_def Let_def)
  show "calcStats [] = \<lparr>avg = 0, positive = 0, negative = 0, neutral = 0\<rparr>"
    by (simp add: calcStats_def)
  have t: "fl64 (fl64 0.1) = fl64 0.1" "fl64 (- fl64 0.1) = - fl64 0.1" "0 \<le> fl64 0.1"
    by code_simp+
  show "calcStats [d\<lparr>p_y := fl64 0.1\<rparr>] =
     \<lparr>avg = fl64 0.1, positive = 0, negative = 0, neutral = 1\<rparr>"
    using t by (simp add: calcStats_def Let_def)
  show "calcStats [d\<lparr>p_y := - fl64 0.1\<rparr>] =
     \<lparr>avg = - fl64 0.1, positive = 0, negative = 0, neutral = 1\<rparr>"
    using t by (simp add: calcStats_def Let_def)
  assume h: "(\<forall>d \<in> set fd. \<bar>p_y d\<bar> \<le> 1) \<and> length fd \<le> 2 ^ 53"
  show "\<bar>avg (calcStats fd) - (if fd = [] then 0 else sum_list (map p_y fd) / real (length fd))\<bar>
        \<le> (real (length fd) + 2) / 2 ^ 52"
  proof (cases "fd = []")
    case True
    then show ?thesis by (simp add: calcStats_def)
  next
    case False
    then have "map p_y fd \<noteq> []" by simp
    moreover from h have "\<forall>y \<in> set (map p_y fd). \<bar>y\<bar> \<le> 1" by simp
    moreover from h have "length (map p_y fd) \<le> 2 ^ 53" by simp
    ultimately have "\<bar>fl64 (sum64 (map p_y fd) / real (length (map p_y fd)))
          - sum_list (map p_y fd) / real (length (map p_y fd))\<bar>
        \<le> (real (length (map p_y fd)) + 2) / 2 ^ 52"
      by (rule avg64_error)
    with False show ?thesis by (simp add: a)
  qed
qed

theorem calcStats_binary64_witness:
  "\<bar>p_y (chartData tenths [0, 1, 2] ! 0)\<bar> \<le> 1 \<and> \<bar>p_y (chartData tenths [0, 1, 2] ! 1)\<bar> \<le> 1 \<and>
   \<bar>p_y (chartData tenths [0, 1, 2] ! 2)\<bar> \<le> 1 \<and> length (chartData tenths [0, 1, 2]) = 3 \<and>
   \<bar>avg (calcStats (chartData tenths [0, 1, 2]))
      - sum_list (map p_y (chartData tenths [0, 1, 2])) / 3\<bar> \<le> 5 / 2 ^ 52"
proof -
  let ?fd = "chartData tenths [0, 1, 2]"
  have l: "length ?fd = 3" by code_simp
  have b: "\<bar>p_y (?fd ! 0)\<bar> \<le> 1" "\<bar>p_y (?fd ! 1)\<bar> \<le> 1" "\<bar>p_y (?fd ! 2)\<bar> \<le> 1"
    by code_simp+
  have "list_all (\<lambda>d. \<bar>p_y d\<bar> \<le> 1) ?fd" by code_simp
  then have h: "\<forall>d \<in> set ?fd. \<bar>p_y d\<bar> \<le> 1"
    by (simp add: list_all_iff)
  have ne: "?fd \<noteq> []" using l by auto
  have len: "length ?fd \<le> 2 ^ 53" using l by simp
  note imp = calcStats_binary64 [of ?fd, THEN conjunct2, THEN conjunct1]
  from imp h len
  have "\<bar>avg (calcStats ?fd)
          - (if ?fd = [] then 0 else sum_list (map p_y ?fd) / real (length ?fd))\<bar>
        \<le> (real (length ?fd) + 2) / 2 ^ 52"
    by blast
  with ne have "\<bar>avg (calcStats ?fd) - sum_list (map p_y ?fd) / real (length ?fd)\<bar>
        \<le> (real (length ?fd) + 2) / 2 ^ 52"
    by simp
  then have "\<bar>avg (calcStats ?fd) - sum_list (map p_y ?fd) / 3\<bar> \<le> 5 / 2 ^ 52"
    unfolding l by simp
  with b l show ?thesis by blast
qed

text \<open>
  C7 as stated, with \<open>avg\<close> equal to the arithmetic mean, fails: for the scores 0.1, 0.2
  and 0.3 the rounded sum is 0.6000000000000001 and \<open>avg\<close> is 0.20000000000000004, which
  is not the mean of the three scores.
\<close>

theorem calcStats_mean_counterexample:
  "map p_y (chartData tenths [0, 1, 2]) = [fl64 0.1, fl64 0.2, fl64 0.3] \<and>
   avg (calcStats (chartData tenths [0, 1, 2])) = 7205759403792795 / 36028797018963968 \<and>
   sum_list (map p_y (chartData tenths [0, 1, 2])) / real (length (chartData tenths [0, 1, 2])) =
     21617278211378381 / 108086391056891904 \<and>
   avg (calcStats (chartData tenths [0, 1, 2])) \<noteq>
     sum_list (map p_y (chartData tenths [0, 1, 2])) / real (length (chartData tenths [0, 1, 2]))"
  by code_simp

text \<open>
  C10. The three counts partition the list: every point is in exactly one of the three
  buckets, so the counts add up to the number of points.
\<close>

theorem calcStats_partition:
  "positive (calcStats fd) + negative (calcStats fd) + neutral (calcStats fd) = length fd"
proof (cases "fd = []")
  case True
  then show ?thesis by (simp add: calcStats_def)
next
  case False
  have c: "0 \<le> fl64 0.1" by (simp add: fl64_tenth)
  have "length (filter (\<lambda>d. p_y d > fl64 0.1) fd)
        + length (filter (\<lambda>d. p_y d < - fl64 0.1) fd)
        + length (filter (\<lambda>d. p_y d \<ge> - fl64 0.1 \<and> p_y d \<le> fl64 0.1) fd) = length fd"
    using c by (induction fd) auto
  with False show ?thesis by (simp add: calcStats_def Let_def)
qed

subsection \<open>Independence of the active filter\<close>

text \<open>
  C6. For fixed results, selection, bias colouring and clock readings, the chart points,
  the date range and both trend lines are the same for any two values of the active
  filter: the date range is computed from the unfiltered chart points, and the trend
  lines from the unfiltered chart points and that date range.
\<close>

theorem filter_independence:
  "t_chartData (SentimentTimeline results sel f1 cb now1 now2) =
     t_chartData (SentimentTimeline results sel f2 cb now1 now2) \<and>
   t_dateRange (SentimentTimeline results sel f1 cb now1 now2) =
     t_dateRange (SentimentTimeline results sel f2 cb now1 now2) \<and>
   t_trendLines (SentimentTimeline results sel f1 cb now1 now2) =
     t_trendLines (SentimentTimeline results sel f2 cb now1 now2) \<and>
   t_dateRange (SentimentTimeline results sel f1 cb now1 now2) =
     dateRange now1 now2 (chartData results sel) \<and>
   t_trendLines (SentimentTimeline results sel f1 cb now1 now2) =
     calcTrendLines cb (dateRange now1 now2 (chartData results sel)) (chartData results sel)"
  by (simp add: SentimentTimeline_def Let_def)

text \<open>The filter is not idle: the filtered points do depend on it.\<close>

lemma filter_matters_example:
  "t_filteredData (SentimentTimeline [fox_news, reddit_left] [0, 1] ''all'' True 0 0) \<noteq>
   t_filteredData (SentimentTimeline [fox_news, reddit_left] [0, 1] ''left'' True 0 0)"
  by code_simp

subsection \<open>Transformer\<close>

text \<open>
  C8. Whatever the order of the results and of the selection, the chart points are
  sorted ascending (non-decreasing) by their time in milliseconds; sorting neither adds
  nor loses a point; and points with the same time keep the order in which the mapping
  produced them.
\<close>

theorem chartData_sorted_stable:
  "sorted (map p_x (chartData results sel)) \<and>
   mset (chartData results sel) = mset (mappedPoints results sel) \<and>
   (\<forall>t. filter (\<lambda>d. p_x d = t) (chartData results sel) =
        filter (\<lambda>d. p_x d = t) (mappedPoints results sel))"
  by (simp add: chartData_def sorted_sortBy mset_sortBy filter_sortBy)

text \<open>
  C9. The transformer has no error value: a selected result either yields a chart point
  or is dropped, and it is dropped exactly when its date is falsy (zero) or its
  sentiment score is undefined. The chart points are the images of the selected results
  that are not dropped, one for each.
\<close>

theorem chartPoint_excluded:
  "(chartPoint r = None \<longleftrightarrow> date r = 0 \<or> sentiment_score r = None) \<and>
   map Some (mappedPoints results sel) =
     map chartPoint (filter (\<lambda>r. \<not> (date r = 0 \<or> sentiment_score r = None))
       (selectedResults results sel)) \<and>
   length (chartData results sel) =
     length (filter (\<lambda>r. \<not> (date r = 0 \<or> sentiment_score r = None))
       (selectedResults results sel))"
proof -
  have a: "chartPoint r = None \<longleftrightarrow> date r = 0 \<or> sentiment_score r = None" for r
    by (rule chartPoint_None)
  have b: "map Some (mappedPoints results sel) =
     map chartPoint (filter (\<lambda>r. \<not> (date r = 0 \<or> sentiment_score r = None))
       (selectedResults results sel))"
    unfolding mappedPoints_def map_filter_as_filter a ..
  have "length (chartData results sel) = length (mappedPoints results sel)"
    by (metis chartData_def mset_sortBy size_mset)
  also have "\<dots> = length (map Some (mappedPoints results sel))" by simp
  also have "\<dots> = length (filter (\<lambda>r. \<not> (date r = 0 \<or> sentiment_score r = None))
       (selectedResults results sel))"
    unfolding b by simp
  finally have c: "length (chartData results sel) =
     length (filter (\<lambda>r. \<not> (date r = 0 \<or> sentiment_score r = None))
       (selectedResults results sel))" .
  show ?thesis by (intro conjI) (rule a, rule b, rule c)
qed

subsection \<open>Trend cohorts\<close>

text \<open>
  C2. The cohort of the left trend consists of exactly the points with category \<open>left\<close>
  and, when bias colouring is on, the social points with bias \<open>left\<close>; the cohort of the
  right trend likewise with \<open>right\<close>. With bias colouring off, a social point of the chart
  data is in neither cohort. The left trend line is fitted to the left cohort and the
  right trend line to the right cohort.
\<close>

theorem trend_cohorts:
  "leftData cb cd =
     filter (\<lambda>d. p_category d = ''left'' \<or> (cb \<and> p_isSocial d \<and> p_bias d = ''left'')) cd \<and>
   rightData cb cd =
     filter (\<lambda>d. p_category d = ''right'' \<or> (cb \<and> p_isSocial d \<and> p_bias d = ''right'')) cd \<and>
   (\<forall>d \<in> set (chartData results sel). p_isSocial d \<or> p_category d = ''social'' \<longrightarrow>
      d \<notin> set (leftData False (chartData results sel)) \<and>
      d \<notin> set (rightData False (chartData results sel))) \<and>
   left (calcTrendLines cb dr cd) =
     generateTrendPoints dr (calculateTrendLine64 (leftData cb cd)) \<and>
   right (calcTrendLines cb dr cd) =
     generateTrendPoints dr (calculateTrendLine64 (rightData cb cd))"
proof (intro conjI ballI impI)
  show "left (calcTrendLines cb dr cd) =
     generateTrendPoints dr (calculateTrendLine64 (leftData cb cd))"
    and "right (calcTrendLines cb dr cd) =
     generateTrendPoints dr (calculateTrendLine64 (rightData cb cd))"
    by (simp_all add: calcTrendLines_def)
next
  show "leftData cb cd =
     filter (\<lambda>d. p_category d = ''left'' \<or> (cb \<and> p_isSocial d \<and> p_bias d = ''left'')) cd"
    by (cases cb) (simp_all add: leftData_def)
  show "rightData cb cd =
     filter (\<lambda>d. p_category d = ''right'' \<or> (cb \<and> p_isSocial d \<and> p_bias d = ''right'')) cd"
    by (cases cb) (simp_all add: rightData_def)
next
  fix d
  assume d: "d \<in> set (chartData results sel)"
    and s: "p_isSocial d \<or> p_category d = ''social''"
  from s chartData_social [OF d] have "p_category d = ''social''" by blast
  then show "d \<notin> set (leftData False (chartData results sel))"
    and "d \<notin> set (rightData False (chartData results sel))"
    by (simp_all add: leftData_def rightData_def)
qed

theorem trend_cohorts_witness:
  "leftData True (chartData [fox_news, reddit_left] [1, 0]) =
     [chartData [fox_news, reddit_left] [1, 0] ! 1] \<and>
   rightData True (chartData [fox_news, reddit_left] [1, 0]) =
     [chartData [fox_news, reddit_left] [1, 0] ! 0] \<and>
   p_isSocial (chartData [fox_news, reddit_left] [1, 0] ! 1) \<and>
   chartData [fox_news, reddit_left] [1, 0] ! 1 \<in> set (chartData [fox_news, reddit_left] [1, 0]) \<and>
   chartData [fox_news, reddit_left] [1, 0] ! 1
     \<notin> set (leftData False (chartData [fox_news, reddit_left] [1, 0])) \<and>
   chartData [fox_news, reddit_left] [1, 0] ! 1
     \<notin> set (rightData False (chartData [fox_news, reddit_left] [1, 0]))"
proof -
  let ?cd = "chartData [fox_news, reddit_left] [1, 0]"
  have l: "leftData True ?cd = [?cd ! 1]" by code_simp
  have r: "rightData True ?cd = [?cd ! 0]" by code_simp
  have s: "p_isSocial (?cd ! 1)" by code_simp
  have m: "?cd ! 1 \<in> set ?cd" by code_simp
  from trend_cohorts [of True ?cd "[fox_news, reddit_left]" "[1, 0]"] m s
  have "?cd ! 1 \<notin> set (leftData False ?cd) \<and> ?cd ! 1 \<notin> set (rightData False ?cd)"
    by blast
  with l r s m show ?thesis by blast
qed

subsection \<open>Date range\<close>

text \<open>
  C5. Without chart points the range runs from 24 hours before the first clock reading
  to the second clock reading. Otherwise it is the least and the greatest time of the
  points, widened on both sides by 5 percent of their distance, or by one hour in
  milliseconds when that distance is zero.
\<close>

theorem dateRange_spec:
  "dateRange now1 now2 [] = \<lparr>range_min = now1 - 86400000, range_max = now2\<rparr> \<and>
   (cd \<noteq> [] \<longrightarrow>
      dateRange now1 now2 cd =
        (let mn = Min (p_x ` set cd);
             mx = Max (p_x ` set cd);
             pad = (if mx - mn = 0 then 60 * 60 * 1000 else (mx - mn) * 0.05)
         in \<lparr>range_min = mn - pad, range_max = mx + pad\<rparr>))"
proof (intro conjI impI)
  show "dateRange now1 now2 [] = \<lparr>range_min = now1 - 86400000, range_max = now2\<rparr>"
    by (simp add: dateRange_def)
next
  assume "cd \<noteq> []"
  then obtain d ds where cd: "cd = d # ds" by (cases cd) auto
  have mn: "math_min (p_x d) (map p_x ds) = Min (p_x ` set cd)"
    by (simp add: math_min_def fold_min_Min cd)
  have mx: "math_max (p_x d) (map p_x ds) = Max (p_x ` set cd)"
    by (simp add: math_max_def fold_max_Max cd)
  have "dateRange now1 now2 (d # ds) =
        (let mn = math_min (p_x d) (map p_x ds);
             mx = math_max (p_x d) (map p_x ds);
             pad = (if mx - mn = 0 then 60 * 60 * 1000 else (mx - mn) * 0.05)
         in \<lparr>range_min = mn - pad, range_max = mx + pad\<rparr>)"
    by (simp add: dateRange_def Let_def)
  then show "dateRange now1 now2 cd =
        (let mn = Min (p_x ` set cd);
             mx = Max (p_x ` set cd);
             pad = (if mx - mn = 0 then 60 * 60 * 1000 else (mx - mn) * 0.05)
         in \<lparr>range_min = mn - pad, range_max = mx + pad\<rparr>)"
    unfolding mn mx cd [symmetric] .
qed

theorem dateRange_spec_witness:
  "chartData [fox_news, reddit_left] [1, 0] \<noteq> [] \<and>
   dateRange 7 8 (chartData [fox_news, reddit_left] [1, 0]) =
     \<lparr>range_min = 95000, range_max = 205000\<rparr> \<and>
   chartData [fox_news] [0, 0] \<noteq> [] \<and>
   dateRange 7 8 (chartData [fox_news] [0, 0]) =
     \<lparr>range_min = 100000 - 3600000, range_max = 100000 + 3600000\<rparr>"
proof -
  let ?a = "chartData [fox_news, reddit_left] [1, 0]"
  let ?b = "chartData [fox_news] [0, 0]"
  have na: "?a \<noteq> []" by code_simp
  have nb: "?b \<noteq> []" by code_simp
  have va: "(let mn = Min (p_x ` set ?a); mx = Max (p_x ` set ?a);
                 pad = (if mx - mn = 0 then 60 * 60 * 1000 else (mx - mn) * 0.05)
             in \<lparr>range_min = mn - pad, range_max = mx + pad\<rparr>) =
            \<lparr>range_min = 95000, range_max = 205000\<rparr>"
    by code_simp
  have vb: "(let mn = Min (p_x ` set ?b); mx = Max (p_x ` set ?b);
                 pad = (if mx - mn = 0 then 60 * 60 * 1000 else (mx - mn) * 0.05)
             in \<lparr>range_min = mn - pad, range_max = mx + pad\<rparr>) =
            \<lparr>range_min = 100000 - 3600000, range_max = 100000 + 3600000\<rparr>"
    by code_simp
  from dateRange_spec [of 7 8 ?a] na va
  have a: "dateRange 7 8 ?a = \<lparr>range_min = 95000, range_max = 205000\<rparr>" by simp
  from dateRange_spec [of 7 8 ?b] nb vb
  have b: "dateRange 7 8 ?b = \<lparr>range_min = 100000 - 3600000, range_max = 100000 + 3600000\<rparr>"
    by simp
  from na a nb b show ?thesis by blast
qed

subsection \<open>Title of a chart point\<close>

text \<open>
  The title of a point is the title of the result when that is not empty, and otherwise
  the first 60 characters of the contents (the word \<open>undefined\<close> when there are no
  contents) followed by three dots. The last operand
  \<open>'Untitled'\<close> is never the result of the expression, because the operand before it
  always ends in the three dots and so is never empty.
\<close>

lemma pointTitle_cases:
  "pointTitle r =
     (if title r \<noteq> [] then title r
      else case contents r of None \<Rightarrow> ''undefined...'' | Some c \<Rightarrow> take 60 c @ ''...'')"
  by (simp add: pointTitle_def substring0_def Let_def split: option.splits)

lemma pointTitle_Untitled: "pointTitle r = ''Untitled'' \<longleftrightarrow> title r = ''Untitled''"
proof -
  have "xs @ ''...'' \<noteq> ''Untitled''" for xs :: string
  proof
    assume "xs @ ''...'' = ''Untitled''"
    then have "last (xs @ ''...'') = last ''Untitled''" by simp
    then show False by simp
  qed
  then show ?thesis
    by (auto simp: pointTitle_cases split: option.splits)
qed

text \<open>
  C4. The title of a point is the title of the result if that is not empty, else the
  first 60 characters of the contents with an ellipsis if the contents are not empty,
  else \<open>Untitled\<close>. The code departs from the last case: for a result with an empty
  title and empty contents the title of the point is the bare ellipsis.
\<close>

theorem pointTitle_blank:
  "title blank_result = [] \<and> contents blank_result = Some [] \<and>
   pointTitle blank_result = ''...'' \<and>
   map p_title (chartData [blank_result] [0]) = [''...'']"
  by code_simp

subsection \<open>Trend estimator\<close>

text \<open>
  In exact arithmetic the regression is as specified: there is no fit exactly when there
  are fewer than two points or the denominator is zero, which is the case whenever all
  points share one \<open>x\<close>; otherwise the fit is the closed form of ordinary least squares,
  and no line has a smaller squared error. On the points (0,0) and (10,1) the slope is
  0.1 and the intercept 0, and the clipped end points over the range from 0 to 10 are
  (0,0) and (10,1).
\<close>

lemma calculateTrendLine_exact:
  fixes data :: "'a point_scheme list"
  shows "(calculateTrendLine data = None \<longleftrightarrow>
            length data < 2 \<or>
            real (length data) * (\<Sum>d\<leftarrow>data. p_x d * p_x d) - (\<Sum>d\<leftarrow>data. p_x d)\<^sup>2 = 0) \<and>
         ((\<forall>d \<in> set data. p_x d = c) \<longrightarrow> calculateTrendLine data = None) \<and>
         (\<forall>t. calculateTrendLine data = Some t \<longrightarrow>
            slope t =
              (real (length data) * (\<Sum>d\<leftarrow>data. p_x d * p_y d)
                 - (\<Sum>d\<leftarrow>data. p_x d) * (\<Sum>d\<leftarrow>data. p_y d))
              / (real (length data) * (\<Sum>d\<leftarrow>data. p_x d * p_x d) - (\<Sum>d\<leftarrow>data. p_x d)\<^sup>2) \<and>
            intercept t =
              ((\<Sum>d\<leftarrow>data. p_y d) - slope t * (\<Sum>d\<leftarrow>data. p_x d)) / real (length data) \<and>
            (\<forall>a b. squaredError data (slope t) (intercept t) \<le> squaredError data a b))"
proof (intro conjI allI impI)
  show "calculateTrendLine data = None \<longleftrightarrow>
          length data < 2 \<or>
          real (length data) * (\<Sum>d\<leftarrow>data. p_x d * p_x d) - (\<Sum>d\<leftarrow>data. p_x d)\<^sup>2 = 0"
    by (simp add: calculateTrendLine_sums power2_eq_square)
next
  assume "\<forall>d \<in> set data. p_x d = c"
  then have "real (length data) * (\<Sum>d\<leftarrow>data. p_x d * p_x d)
               - (\<Sum>d\<leftarrow>data. p_x d) * (\<Sum>d\<leftarrow>data. p_x d) = 0"
    by (rule same_x_denominator)
  then show "calculateTrendLine data = None"
    by (simp add: calculateTrendLine_sums)
next
  fix t
  assume t: "calculateTrendLine data = Some t"
  then have n: "\<not> length data < 2"
    and D: "real (length data) * (\<Sum>d\<leftarrow>data. p_x d * p_x d)
              - (\<Sum>d\<leftarrow>data. p_x d) * (\<Sum>d\<leftarrow>data. p_x d) \<noteq> 0"
    by (auto simp: calculateTrendLine_sums split: if_splits)
  from t n D show s: "slope t =
      (real (length data) * (\<Sum>d\<leftarrow>data. p_x d * p_y d)
         - (\<Sum>d\<leftarrow>data. p_x d) * (\<Sum>d\<leftarrow>data. p_y d))
      / (real (length data) * (\<Sum>d\<leftarrow>data. p_x d * p_x d) - (\<Sum>d\<leftarrow>data. p_x d)\<^sup>2)"
    by (auto simp: calculateTrendLine_sums power2_eq_square)
  from t n D show i: "intercept t =
      ((\<Sum>d\<leftarrow>data. p_y d) - slope t * (\<Sum>d\<leftarrow>data. p_x d)) / real (length data)"
    by (auto simp: calculateTrendLine_sums)
  from n have n0: "real (length data) \<noteq> 0" by auto
  fix a b
  from n0 D s [unfolded power2_eq_square] i
  show "squaredError data (slope t) (intercept t) \<le> squaredError data a b"
    by (rule least_squares)
qed

lemma calculateTrendLine_example:
  "calculateTrendLine [\<lparr>p_x = 0, p_y = 0\<rparr>, \<lparr>p_x = 10, p_y = 1\<rparr>] =
     Some \<lparr>slope = 0.1, intercept = 0\<rparr> \<and>
   generateTrendPoints \<lparr>range_min = 0, range_max = 10\<rparr>
       (calculateTrendLine [\<lparr>p_x = 0, p_y = 0\<rparr>, \<lparr>p_x = 10, p_y = 1\<rparr>]) =
     [\<lparr>p_x = 0, p_y = 0\<rparr>, \<lparr>p_x = 10, p_y = 1\<rparr>] \<and>
   calculateTrendLine64 [\<lparr>p_x = 0, p_y = 0\<rparr>, \<lparr>p_x = 10, p_y = 1\<rparr>] =
     Some \<lparr>slope = fl64 0.1, intercept = 0\<rparr> \<and>
   fl64 (fl64 (fl64 0.1 * 10) + 0) = 1"
  by code_simp

text \<open>
  The steps of the denominator for three points at the time 1709925458000, each rounded:
  the square of the time, the two sums, the two products and their difference. The exact
  square has more than 53 significant bits, and the difference of the rounded products
  is 4294967296 where the exact difference is zero.
\<close>

lemma same_instant_denominator:
  "fl64 (1709925458000 * 1709925458000) = 2923845071916509966630912 \<and>
   foldl (\<lambda>acc x. fl64 (acc + fl64 (x * x))) 0 [1709925458000, 1709925458000, 1709925458000] =
     8771535215749529899892736 \<and>
   foldl (\<lambda>acc x. fl64 (acc + x)) 0 [1709925458000, 1709925458000, 1709925458000] =
     5129776374000 \<and>
   fl64 (3 * 8771535215749529899892736) = 26314605647248590773420032 \<and>
   fl64 (5129776374000 * 5129776374000) = 26314605647248586478452736 \<and>
   fl64 (26314605647248590773420032 - 26314605647248586478452736) = 4294967296 \<and>
   (1709925458000 * 1709925458000 :: real) = 2923845071916509764000000"
  by code_simp

text \<open>
  C1. The regression returns no fit exactly when it has fewer than two points or its
  denominator is exactly zero, in particular whenever all points share one \<open>x\<close>. On
  binary64 numbers the code departs from the last part: the squares of millisecond
  times are rounded, and for three articles published in the same second the computed
  denominator is not zero, so a fit is returned (a flat line at a rounded mean) where
  exact arithmetic gives none.
\<close>

theorem same_instant_fit:
  "map (\<lambda>d. (p_x d, p_y d)) (leftData True (chartData same_instant [0, 1, 2])) =
     [(1709925458000, 0.5), (1709925458000, 0.25), (1709925458000, - 0.5)] \<and>
   calculateTrendLine (leftData True (chartData same_instant [0, 1, 2])) = None \<and>
   calculateTrendLine64 (leftData True (chartData same_instant [0, 1, 2])) =
     Some \<lparr>slope = 0, intercept = 6004799503160661 / 72057594037927936\<rparr>"
  by code_simp

end
